theory Spec2Isabelle
  imports Main "HOL-Library.Char_ord" "HOL-Library.List_Lexorder" "HOL-Library.Multiset"
begin

section \<open>Student-records service (dz3.py): cache keys, cache, sessions, routes\<close>

text \<open>
  The model follows \<^verbatim>\<open>src/dz3.py\<close>. Conventions:
  \<^item> the wall clock (\<^verbatim>\<open>datetime.now().timestamp()\<close>, and the clock of the Redis server)
    is a parameter \<open>now\<close>, in whole seconds;
  \<^item> \<^verbatim>\<open>secrets.token_urlsafe(32)\<close> is a parameter of \<open>login\<close>: the token the generator
    returned;
  \<^item> the cache holds JSON documents: \<^verbatim>\<open>json.dumps\<close> turns a value into one or raises
    \<^verbatim>\<open>TypeError\<close> (it does so for an object of the class \<^verbatim>\<open>Student\<close>), and
    \<^verbatim>\<open>json.loads\<close> gives the stored document back;
  \<^item> an exception is a value \<open>Inl e\<close>; the database, the cache and the file system are
    fields of one record that every operation takes and returns.
\<close>

subsection \<open>Keyword arguments and their rendering in an f-string\<close>

datatype pyval = PInt int | PStr string

definition digit_char :: "nat \<Rightarrow> char" where
  "digit_char d = char_of (48 + d)"

fun digits :: "nat \<Rightarrow> string" where
  "digits n = (if n < 10 then [digit_char n] else digits (n div 10) @ [digit_char (n mod 10)])"

declare digits.simps [simp del]

text \<open>\<^verbatim>\<open>str(v)\<close>, which the f-string \<^verbatim>\<open>f":{k}={v}"\<close> applies to the value.\<close>

fun py_str :: "pyval \<Rightarrow> string" where
  "py_str (PInt i) = (if i < 0 then CHR ''-'' # digits (nat (- i)) else digits (nat i))"
| "py_str (PStr s) = s"

subsection \<open>get_cache_key\<close>

text \<open>
  \<^verbatim>\<open>
  def get_cache_key(endpoint: str, **kwargs) -> str:
      key = f"cache:{endpoint}"
      for k, v in sorted(kwargs.items()):
          key += f":{k}={v}"
      return key
  \<close>
  \<open>kwargs\<close> is the dictionary in insertion order, a list of pairs with distinct keys.
  \<^verbatim>\<open>sorted\<close> compares the pairs; as no two pairs of a dictionary share a key, the key
  decides every comparison. Strings compare lexicographically, character by character.
\<close>

definition get_cache_key :: "string \<Rightarrow> (string \<times> pyval) list \<Rightarrow> string" where
  "get_cache_key endpoint kwargs =
     foldl (\<lambda>key (k, v). key @ '':'' @ k @ ''='' @ py_str v)
       (''cache:'' @ endpoint) (sort_key fst kwargs)"

text \<open>The key as the specification words it: the parts \<open>:k=v\<close> joined after the endpoint.\<close>

definition spec_key :: "string \<Rightarrow> (string \<times> pyval) list \<Rightarrow> string" where
  "spec_key endpoint sorted_params =
     ''cache:'' @ endpoint @ concat (map (\<lambda>(k, v). '':'' @ k @ ''='' @ py_str v) sorted_params)"

subsection \<open>Tables, request bodies, responses, errors\<close>

text \<open>The rows of \<^verbatim>\<open>students\<close> and \<^verbatim>\<open>users\<close>; \<open>student_id\<close> and \<open>user_id\<close> are the columns \<^verbatim>\<open>id\<close>.\<close>

record student =
  student_id :: int
  surname :: string
  name :: string
  faculty :: string
  course :: string
  grade :: int

record user =
  user_id :: int
  username :: string
  password :: string
  session_token :: "string option"
  token_expiry :: "int option"

text \<open>\<^verbatim>\<open>StudentCreate\<close>: surname, name, faculty, course, grade.\<close>

datatype student_create = StudentCreate string string string string int

text \<open>
  \<^verbatim>\<open>StudentUpdate\<close>: each field is left out of the request (\<open>Unset\<close>), sent as
  \<^verbatim>\<open>null\<close> (\<open>Null\<close>) or sent with a value; \<^verbatim>\<open>dict(exclude_unset=True)\<close> keeps the last two.
\<close>

datatype 'a field = Unset | Null | Given 'a

datatype student_update =
  StudentUpdate "string field" "string field" "string field" "string field" "int field"


datatype user_register = UserRegister string string

text \<open>A JSON document: what \<^verbatim>\<open>json.loads\<close> returns, and what Redis stores as text.\<close>

datatype json =
    JNull
  | JBool bool
  | JInt int
  | JStr string
  | JList "json list"
  | JObj "(string \<times> json) list"

text \<open>
  What a route returns: an object of the class \<^verbatim>\<open>Student\<close> as the query gave it, a list of
  such objects, a dictionary \<^verbatim>\<open>{"message": ...}\<close>, or the document read from the cache.
\<close>

datatype payload =
    StudentBody student
  | StudentsBody "student list"
  | MessageBody string
  | CachedBody json

datatype error =
    HTTPException nat string
  | TypeError
  | KeyError string
  | ValueError
  | IntegrityError
  | FileNotFoundError

text \<open>
  What an observer of the calls sees (the store-call counter of a test): a query on the
  table of students, and a call of \<open>invalidate_cache\<close> with its prefix.
\<close>

datatype event = StudentQuery | Invalidate string

datatype task = LoadCsvTask string | DeleteStudentsTask "int list"

text \<open>A row of \<^verbatim>\<open>csv.DictReader\<close>: column name to cell; a cell the line lacks is \<^verbatim>\<open>None\<close>.\<close>

type_synonym csv_row = "(string \<times> string option) list"

text \<open>A Redis entry: the stored value and the instant at which it expires.\<close>

type_synonym redis_db = "(string \<times> json \<times> int) list"

record world =
  students :: "student list"
  users :: "user list"
  redis :: redis_db
  files :: "(string \<times> csv_row list) list"
  background_tasks :: "task list"
  trace :: "event list"

subsection \<open>Redis: GET, SETEX, KEYS, DEL\<close>

text \<open>
  \<^verbatim>\<open>KEYS\<close> takes a glob pattern: \<open>*\<close> matches any run of characters, \<open>?\<close> one
  character, a backslash takes the next character literally. Bracket classes are not
  modelled: \<open>[\<close> is read as itself, and \<open>glob_free\<close> holds of the strings that contain
  no character the pattern language gives a meaning to.
\<close>

fun glob_match :: "string \<Rightarrow> string \<Rightarrow> bool" where
  "glob_match [] s = (s = [])"
| "glob_match (p # ps) [] = (p = CHR ''*'' \<and> glob_match ps [])"
| "glob_match (p # ps) (c # cs) =
     (if p = CHR ''*'' then glob_match ps (c # cs) \<or> glob_match (p # ps) cs
      else if p = CHR ''?'' then glob_match ps cs
      else if p = CHR 0x5C then
        (case ps of [] \<Rightarrow> c = p \<and> cs = [] | q # qs \<Rightarrow> c = q \<and> glob_match qs cs)
      else c = p \<and> glob_match ps cs)"

definition glob_free :: "string \<Rightarrow> bool" where
  "glob_free s = list_all (\<lambda>c. c \<noteq> CHR ''*'' \<and> c \<noteq> CHR ''?'' \<and> c \<noteq> CHR ''[''
                               \<and> c \<noteq> CHR '']'' \<and> c \<noteq> CHR 0x5C) s"

definition redis_get :: "int \<Rightarrow> redis_db \<Rightarrow> string \<Rightarrow> json option" where
  "redis_get now r k =
     (case map_of r k of
        None \<Rightarrow> None
      | Some (v, expiry) \<Rightarrow> if now < expiry then Some v else None)"

definition redis_setex :: "int \<Rightarrow> redis_db \<Rightarrow> string \<Rightarrow> int \<Rightarrow> json \<Rightarrow> redis_db" where
  "redis_setex now r k seconds v = (k, (v, now + seconds)) # filter (\<lambda>e. fst e \<noteq> k) r"

definition redis_keys :: "int \<Rightarrow> redis_db \<Rightarrow> string \<Rightarrow> string list" where
  "redis_keys now r pattern =
     filter (\<lambda>k. redis_get now r k \<noteq> None \<and> glob_match pattern k) (map fst r)"

definition redis_delete :: "redis_db \<Rightarrow> string list \<Rightarrow> redis_db" where
  "redis_delete r ks = filter (\<lambda>e. fst e \<notin> set ks) r"

subsection \<open>The cache functions\<close>

text \<open>
  \<^verbatim>\<open>
  def get_cached_response(cache_key: str):
      cached = redis_client.get(cache_key)
      if cached:
          return json.loads(cached)
      return None

  def set_cached_response(cache_key: str, data, expire: int = 300):
      redis_client.setex(cache_key, expire, json.dumps(data))

  def invalidate_cache(endpoint_prefix: str):
      keys = redis_client.keys(f"cache:{endpoint_prefix}:*")
      if keys:
          redis_client.delete(*keys)
  \<close>
\<close>

text \<open>
  \<^verbatim>\<open>json.dumps(data)\<close>. The encoder knows dictionaries, lists, strings and numbers; for an
  object of the class \<^verbatim>\<open>Student\<close>, alone or as an element of a list, it raises
  \<^verbatim>\<open>TypeError\<close>. The empty list is the document \<open>[]\<close>.
\<close>

fun json_dumps :: "payload \<Rightarrow> error + json" where
  "json_dumps (StudentBody st) = Inl TypeError"
| "json_dumps (StudentsBody []) = Inr (JList [])"
| "json_dumps (StudentsBody (st # sts)) = Inl TypeError"
| "json_dumps (MessageBody m) = Inr (JObj [(''message'', JStr m)])"
| "json_dumps (CachedBody j) = Inr j"

text \<open>
  The result is \<^verbatim>\<open>None\<close> when Redis has no live entry, and also when the stored document is
  \<^verbatim>\<open>null\<close>, which \<^verbatim>\<open>json.loads\<close> turns into \<^verbatim>\<open>None\<close>.
\<close>

definition get_cached_response :: "int \<Rightarrow> string \<Rightarrow> world \<Rightarrow> json option" where
  "get_cached_response now cache_key w =
     (case redis_get now (redis w) cache_key of
        None \<Rightarrow> None
      | Some cached \<Rightarrow> if cached = JNull then None else Some cached)"

definition set_cached_response ::
  "int \<Rightarrow> string \<Rightarrow> payload \<Rightarrow> int \<Rightarrow> world \<Rightarrow> error + world" where
  "set_cached_response now cache_key data expire w =
     (case json_dumps data of
        Inl e \<Rightarrow> Inl e
      | Inr doc \<Rightarrow> Inr (w\<lparr>redis := redis_setex now (redis w) cache_key expire doc\<rparr>))"

definition invalidate_cache :: "int \<Rightarrow> string \<Rightarrow> world \<Rightarrow> world" where
  "invalidate_cache now endpoint_prefix w =
     (let keys = redis_keys now (redis w) (''cache:'' @ endpoint_prefix @ '':*'');
          w1 = w\<lparr>trace := trace w @ [Invalidate endpoint_prefix]\<rparr>
      in if keys \<noteq> [] then w1\<lparr>redis := redis_delete (redis w1) keys\<rparr> else w1)"

text \<open>
  A call \<^verbatim>\<open>invalidate_cache(prefix, **kwargs)\<close>: the function has the one parameter
  \<^verbatim>\<open>endpoint_prefix\<close>, so Python raises \<^verbatim>\<open>TypeError\<close> for any keyword argument, before
  the body runs.
\<close>

definition call_invalidate_cache ::
  "int \<Rightarrow> string \<Rightarrow> (string \<times> pyval) list \<Rightarrow> world \<Rightarrow> error + world" where
  "call_invalidate_cache now endpoint_prefix kwargs w =
     (if kwargs \<noteq> [] then Inl TypeError else Inr (invalidate_cache now endpoint_prefix w))"

subsection \<open>StudentDatabase: the students\<close>

text \<open>
  \<^verbatim>\<open>query(...).first()\<close> is \<open>find\<close>. A change to the object a query returned, committed,
  changes that row: \<open>update_first\<close>; \<^verbatim>\<open>db.delete(obj)\<close> removes it: \<open>remove_first\<close>.
\<close>

fun update_first :: "('a \<Rightarrow> bool) \<Rightarrow> ('a \<Rightarrow> 'a) \<Rightarrow> 'a list \<Rightarrow> 'a list" where
  "update_first P f [] = []"
| "update_first P f (x # xs) = (if P x then f x # xs else x # update_first P f xs)"

fun remove_first :: "('a \<Rightarrow> bool) \<Rightarrow> 'a list \<Rightarrow> 'a list" where
  "remove_first P [] = []"
| "remove_first P (x # xs) = (if P x then xs else x # remove_first P xs)"

text \<open>The id SQLite gives a new row of an \<^verbatim>\<open>INTEGER PRIMARY KEY\<close>: one more than the largest.\<close>

definition next_id :: "int list \<Rightarrow> int" where
  "next_id ids = fold max ids 0 + 1"

definition insert_student :: "student_create \<Rightarrow> world \<Rightarrow> student \<times> world" where
  "insert_student sc w =
     (case sc of StudentCreate sn n f c g \<Rightarrow>
        let db_student = \<lparr>student_id = next_id (map student_id (students w)),
                           surname = sn, name = n, faculty = f, course = c, grade = g\<rparr>
        in (db_student, w\<lparr>students := students w @ [db_student]\<rparr>))"

definition get_student :: "int \<Rightarrow> world \<Rightarrow> (error + student) \<times> world" where
  "get_student sid w =
     (let w1 = w\<lparr>trace := trace w @ [StudentQuery]\<rparr>
      in case find (\<lambda>s. student_id s = sid) (students w) of
           None \<Rightarrow> (Inl (HTTPException 404 ''Student not found''), w1)
         | Some st \<Rightarrow> (Inr st, w1))"

definition get_all_students :: "world \<Rightarrow> student list \<times> world" where
  "get_all_students w = (students w, w\<lparr>trace := trace w @ [StudentQuery]\<rparr>)"

text \<open>\<^verbatim>\<open>setattr\<close> of one field: the new value, or \<open>None\<close> when the column would become NULL.\<close>

fun set_field :: "'a field \<Rightarrow> 'a \<Rightarrow> 'a option" where
  "set_field Unset old = Some old"
| "set_field Null old = None"
| "set_field (Given v) old = Some v"

text \<open>
  The row after the \<^verbatim>\<open>setattr\<close> loop; every column is \<^verbatim>\<open>nullable=False\<close>, so the commit
  of a row with a NULL fails (\<open>None\<close>).
\<close>

definition apply_update :: "student_update \<Rightarrow> student \<Rightarrow> student option" where
  "apply_update su st =
     (case su of StudentUpdate sn n f c g \<Rightarrow>
        (case (set_field sn (surname st), set_field n (name st), set_field f (faculty st),
               set_field c (course st), set_field g (grade st)) of
           (Some sn', Some n', Some f', Some c', Some g') \<Rightarrow>
             Some (st\<lparr>surname := sn', name := n', faculty := f', course := c', grade := g'\<rparr>)
         | _ \<Rightarrow> None))"

definition db_update_student ::
  "int \<Rightarrow> student_update \<Rightarrow> world \<Rightarrow> (error + student) \<times> world" where
  "db_update_student sid student_data w =
     (case get_student sid w of
        (Inl e, w1) \<Rightarrow> (Inl e, w1)
      | (Inr st, w1) \<Rightarrow>
          (case apply_update student_data st of
             None \<Rightarrow> (Inl IntegrityError, w1)
           | Some st' \<Rightarrow>
               (Inr st', w1\<lparr>students :=
                   update_first (\<lambda>s. student_id s = sid) (\<lambda>_. st') (students w1)\<rparr>)))"

definition db_delete_student :: "int \<Rightarrow> world \<Rightarrow> (error + payload) \<times> world" where
  "db_delete_student sid w =
     (case get_student sid w of
        (Inl e, w1) \<Rightarrow> (Inl e, w1)
      | (Inr st, w1) \<Rightarrow>
          (Inr (MessageBody ''Student deleted successfully''),
           w1\<lparr>students := remove_first (\<lambda>s. student_id s = sid) (students w1)\<rparr>))"

definition delete_students_by_ids :: "int list \<Rightarrow> world \<Rightarrow> world" where
  "delete_students_by_ids student_ids w =
     (if student_ids = [] then w
      else w\<lparr>students := filter (\<lambda>s. student_id s \<notin> set student_ids) (students w)\<rparr>)"

subsection \<open>StudentDatabase.load_from_csv\<close>

text \<open>
  \<^verbatim>\<open>int(cell)\<close> on a string: surrounding white space is dropped, then an optional sign and
  decimal digits, single underscores allowed between digits. Anything else raises
  \<^verbatim>\<open>ValueError\<close> (\<open>None\<close> here).
\<close>

definition is_digit :: "char \<Rightarrow> bool" where
  "is_digit c = (CHR ''0'' \<le> c \<and> c \<le> CHR ''9'')"

definition digit_val :: "char \<Rightarrow> nat" where
  "digit_val c = of_char c - 48"

definition is_space :: "char \<Rightarrow> bool" where
  "is_space c = (c \<in> set [CHR '' '', CHR 0x09, CHR 0x0A, CHR 0x0B, CHR 0x0C, CHR 0x0D,
                            CHR 0x1C, CHR 0x1D, CHR 0x1E, CHR 0x1F])"

definition strip :: "string \<Rightarrow> string" where
  "strip s = rev (dropWhile is_space (rev (dropWhile is_space s)))"

fun int_digits :: "nat \<Rightarrow> string \<Rightarrow> nat option" where
  "int_digits acc [] = Some acc"
| "int_digits acc [c] = (if is_digit c then Some (acc * 10 + digit_val c) else None)"
| "int_digits acc (c # d # ds) =
     (if is_digit c then int_digits (acc * 10 + digit_val c) (d # ds)
      else if c = CHR ''_'' \<and> is_digit d then int_digits (acc * 10 + digit_val d) ds
      else None)"

definition unsigned :: "string \<Rightarrow> nat option" where
  "unsigned s = (case s of [] \<Rightarrow> None
                 | c # cs \<Rightarrow> if is_digit c then int_digits (digit_val c) cs else None)"

definition py_int :: "string \<Rightarrow> int option" where
  "py_int s =
     (case strip s of
        [] \<Rightarrow> None
      | c # cs \<Rightarrow>
          if c = CHR ''-'' then map_option (\<lambda>n. - int n) (unsigned cs)
          else if c = CHR ''+'' then map_option int (unsigned cs)
          else map_option int (unsigned (c # cs)))"

text \<open>The column names of the file, in UTF-8: surname, name, faculty, course, grade.\<close>

definition col_surname :: string where
  "col_surname = [CHR 0xD0, CHR 0xA4, CHR 0xD0, CHR 0xB0, CHR 0xD0, CHR 0xBC, CHR 0xD0,
                  CHR 0xB8, CHR 0xD0, CHR 0xBB, CHR 0xD0, CHR 0xB8, CHR 0xD1, CHR 0x8F]"

definition col_name :: string where
  "col_name = [CHR 0xD0, CHR 0x98, CHR 0xD0, CHR 0xBC, CHR 0xD1, CHR 0x8F]"

definition col_faculty :: string where
  "col_faculty = [CHR 0xD0, CHR 0xA4, CHR 0xD0, CHR 0xB0, CHR 0xD0, CHR 0xBA, CHR 0xD1,
                  CHR 0x83, CHR 0xD0, CHR 0xBB, CHR 0xD1, CHR 0x8C, CHR 0xD1, CHR 0x82,
                  CHR 0xD0, CHR 0xB5, CHR 0xD1, CHR 0x82]"

definition col_course :: string where
  "col_course = [CHR 0xD0, CHR 0x9A, CHR 0xD1, CHR 0x83, CHR 0xD1, CHR 0x80, CHR 0xD1, CHR 0x81]"

definition col_grade :: string where
  "col_grade = [CHR 0xD0, CHR 0x9E, CHR 0xD1, CHR 0x86, CHR 0xD0, CHR 0xB5, CHR 0xD0,
                CHR 0xBD, CHR 0xD0, CHR 0xBA, CHR 0xD0, CHR 0xB0]"

text \<open>\<^verbatim>\<open>row[column]\<close>: \<^verbatim>\<open>KeyError\<close> when the header has no such column.\<close>

definition cell :: "csv_row \<Rightarrow> string \<Rightarrow> error + string option" where
  "cell row column = (case map_of row column of None \<Rightarrow> Inl (KeyError column) | Some c \<Rightarrow> Inr c)"

text \<open>An object \<^verbatim>\<open>Student(...)\<close> not yet flushed: its text fields may be \<^verbatim>\<open>None\<close>.\<close>

type_synonym pending =
  "string option \<times> string option \<times> string option \<times> string option \<times> int"

text \<open>
  The five arguments of \<^verbatim>\<open>Student(...)\<close> are evaluated in order; \<^verbatim>\<open>int(None)\<close> raises
  \<^verbatim>\<open>TypeError\<close>.
\<close>

definition row_student :: "csv_row \<Rightarrow> error + pending" where
  "row_student row =
     (case cell row col_surname of Inl e \<Rightarrow> Inl e | Inr sn \<Rightarrow>
      case cell row col_name of Inl e \<Rightarrow> Inl e | Inr n \<Rightarrow>
      case cell row col_faculty of Inl e \<Rightarrow> Inl e | Inr f \<Rightarrow>
      case cell row col_course of Inl e \<Rightarrow> Inl e | Inr c \<Rightarrow>
      case cell row col_grade of Inl e \<Rightarrow> Inl e | Inr g \<Rightarrow>
      (case g of
         None \<Rightarrow> Inl TypeError
       | Some txt \<Rightarrow>
           (case py_int txt of None \<Rightarrow> Inl ValueError | Some i \<Rightarrow> Inr (sn, n, f, c, i))))"

text \<open>The loop \<^verbatim>\<open>for row in csv_reader\<close>: the objects added to the session, or the first error.\<close>

fun read_rows :: "csv_row list \<Rightarrow> error + pending list" where
  "read_rows [] = Inr []"
| "read_rows (row # rows) =
     (case row_student row of
        Inl e \<Rightarrow> Inl e
      | Inr p \<Rightarrow> (case read_rows rows of Inl e \<Rightarrow> Inl e | Inr ps \<Rightarrow> Inr (p # ps)))"

text \<open>The commit: every pending object becomes a row with the next id, unless one has a NULL.\<close>

fun flush :: "pending list \<Rightarrow> student list \<Rightarrow> student list option" where
  "flush [] table = Some table"
| "flush ((Some sn, Some n, Some f, Some c, g) # ps) table =
     flush ps (table @ [\<lparr>student_id = next_id (map student_id table),
                          surname = sn, name = n, faculty = f, course = c, grade = g\<rparr>])"
| "flush (_ # ps) table = None"

definition load_from_csv :: "string \<Rightarrow> world \<Rightarrow> error + world" where
  "load_from_csv file_path w =
     (case map_of (files w) file_path of
        None \<Rightarrow> Inl FileNotFoundError
      | Some rows \<Rightarrow>
          (case read_rows rows of
             Inl e \<Rightarrow> Inl e
           | Inr ps \<Rightarrow>
               (case flush ps (students w) of
                  None \<Rightarrow> Inl IntegrityError
                | Some table \<Rightarrow> Inr (w\<lparr>students := table\<rparr>))))"

subsection \<open>StudentDatabase: users and sessions\<close>

definition hash_password :: "string \<Rightarrow> string" where
  "hash_password pw = pw @ ''_hashed''"


definition db_register_user :: "user_register \<Rightarrow> world \<Rightarrow> error + user \<times> world" where
  "db_register_user ur w =
     (case ur of UserRegister uname pw \<Rightarrow>
        (case find (\<lambda>u. username u = uname) (users w) of
           Some existing_user \<Rightarrow> Inl (HTTPException 400 ''Username already registered'')
         | None \<Rightarrow>
             let new_user = \<lparr>user_id = next_id (map user_id (users w)), username = uname,
                              password = hash_password pw, session_token = None,
                              token_expiry = None\<rparr>
             in Inr (new_user, w\<lparr>users := users w @ [new_user]\<rparr>)))"


definition db_logout_user :: "string \<Rightarrow> world \<Rightarrow> payload \<times> world" where
  "db_logout_user tok w =
     (MessageBody ''Logged out successfully'',
      case find (\<lambda>u. session_token u = Some tok) (users w) of
        None \<Rightarrow> w
      | Some u \<Rightarrow>
          w\<lparr>users := update_first (\<lambda>u. session_token u = Some tok)
                        (\<lambda>u. u\<lparr>session_token := None, token_expiry := None\<rparr>) (users w)\<rparr>)"

text \<open>
  \<^verbatim>\<open>
  def get_current_user(self, session_token: str):
      if not session_token:
          return None
      user = self.db.query(User).filter(User.session_token == session_token).first()
      if user and user.token_expiry and datetime.now().timestamp() > user.token_expiry:
          user.session_token = None
          user.token_expiry = None
          self.db.commit()
          return None
      return user
  \<close>
  \<^verbatim>\<open>user.token_expiry\<close> is false in the test when the column is NULL or 0.
\<close>

definition db_get_current_user :: "int \<Rightarrow> string \<Rightarrow> world \<Rightarrow> user option \<times> world" where
  "db_get_current_user now tok w =
     (if tok = [] then (None, w)
      else
        (case find (\<lambda>u. session_token u = Some tok) (users w) of
           None \<Rightarrow> (None, w)
         | Some u \<Rightarrow>
             (case token_expiry u of
                None \<Rightarrow> (Some u, w)
              | Some expiry \<Rightarrow>
                  if expiry \<noteq> 0 \<and> now > expiry
                  then (None,
                        w\<lparr>users := update_first (\<lambda>u. session_token u = Some tok)
                                      (\<lambda>u. u\<lparr>session_token := None, token_expiry := None\<rparr>)
                                      (users w)\<rparr>)
                  else (Some u, w))))"

text \<open>The users whose row holds a given session token, in table order.\<close>

definition holders :: "string \<Rightarrow> world \<Rightarrow> user list" where
  "holders tok w = filter (\<lambda>u. session_token u = Some tok) (users w)"

text \<open>The dependency \<^verbatim>\<open>get_current_user\<close> of the routes; the cookie may be missing.\<close>

definition get_current_user :: "int \<Rightarrow> string option \<Rightarrow> world \<Rightarrow> (error + user) \<times> world" where
  "get_current_user now cookie w =
     (case cookie of
        None \<Rightarrow> (Inl (HTTPException 401 ''Not authenticated''), w)
      | Some tok \<Rightarrow>
          if tok = [] then (Inl (HTTPException 401 ''Not authenticated''), w)
          else
            (case db_get_current_user now tok w of
               (None, w1) \<Rightarrow> (Inl (HTTPException 401 ''Invalid or expired session token''), w1)
             | (Some u, w1) \<Rightarrow> (Inr u, w1)))"

subsection \<open>Background tasks\<close>

text \<open>
  \<^verbatim>\<open>
  def background_load_csv(db: Session, file_path: str):
      try:
          db_service = StudentDatabase(db)
          db_service.load_from_csv(file_path)
          invalidate_cache("students")
          invalidate_cache("faculties")
          invalidate_cache("courses")
      except Exception as e:
          print(f"Error during CSV import: {str(e)}")
  \<close>
  and \<^verbatim>\<open>background_delete_students\<close> likewise, with \<^verbatim>\<open>students\<close> and \<^verbatim>\<open>faculties\<close>. The
  \<^verbatim>\<open>print\<close> calls are left out.
\<close>

definition background_load_csv :: "int \<Rightarrow> string \<Rightarrow> world \<Rightarrow> world" where
  "background_load_csv now file_path w =
     (case load_from_csv file_path w of
        Inl e \<Rightarrow> w
      | Inr w1 \<Rightarrow>
          invalidate_cache now ''courses''
            (invalidate_cache now ''faculties'' (invalidate_cache now ''students'' w1)))"

definition background_delete_students :: "int \<Rightarrow> int list \<Rightarrow> world \<Rightarrow> world" where
  "background_delete_students now student_ids w =
     invalidate_cache now ''faculties''
       (invalidate_cache now ''students'' (delete_students_by_ids student_ids w))"



subsection \<open>Routes\<close>

text \<open>\<^verbatim>\<open>xs[a:b]\<close> with Python's reading of negative and too large bounds.\<close>

definition slice_bound :: "int \<Rightarrow> nat \<Rightarrow> nat" where
  "slice_bound i n = (if i < 0 then nat (max (i + int n) 0) else min (nat i) n)"

definition py_slice :: "'a list \<Rightarrow> int \<Rightarrow> int \<Rightarrow> 'a list" where
  "py_slice xs a b =
     (let lo = slice_bound a (length xs); hi = slice_bound b (length xs)
      in take (hi - lo) (drop lo xs))"

definition load_csv_from_file ::
  "int \<Rightarrow> string option \<Rightarrow> string \<Rightarrow> world \<Rightarrow> (error + payload) \<times> world" where
  "load_csv_from_file now cookie file_path w =
     (case get_current_user now cookie w of
        (Inl e, w0) \<Rightarrow> (Inl e, w0)
      | (Inr current_user, w0) \<Rightarrow>
          if map_of (files w0) file_path = None
          then (Inl (HTTPException 404 ''File not found''), w0)
          else (Inr (MessageBody ''CSV import started in background''),
                w0\<lparr>background_tasks := background_tasks w0 @ [LoadCsvTask file_path]\<rparr>))"

definition delete_students_bulk ::
  "int \<Rightarrow> string option \<Rightarrow> int list \<Rightarrow> world \<Rightarrow> (error + payload) \<times> world" where
  "delete_students_bulk now cookie student_ids w =
     (case get_current_user now cookie w of
        (Inl e, w0) \<Rightarrow> (Inl e, w0)
      | (Inr current_user, w0) \<Rightarrow>
          if student_ids = []
          then (Inl (HTTPException 400 ''No student IDs provided''), w0)
          else (Inr (MessageBody ''Student deletion started in background''),
                w0\<lparr>background_tasks := background_tasks w0 @ [DeleteStudentsTask student_ids]\<rparr>))"

definition create_student ::
  "int \<Rightarrow> string option \<Rightarrow> student_create \<Rightarrow> world \<Rightarrow> (error + payload) \<times> world" where
  "create_student now cookie sc w =
     (case get_current_user now cookie w of
        (Inl e, w0) \<Rightarrow> (Inl e, w0)
      | (Inr current_user, w0) \<Rightarrow>
          (case insert_student sc w0 of
             (db_student, w1) \<Rightarrow>
               (Inr (StudentBody db_student),
                invalidate_cache now ''faculties'' (invalidate_cache now ''students'' w1))))"

definition read_all_students ::
  "int \<Rightarrow> string option \<Rightarrow> int \<Rightarrow> int \<Rightarrow> world \<Rightarrow> (error + payload) \<times> world" where
  "read_all_students now cookie skip limit w =
     (case get_current_user now cookie w of
        (Inl e, w0) \<Rightarrow> (Inl e, w0)
      | (Inr current_user, w0) \<Rightarrow>
          let cache_key = get_cache_key ''students'' [(''skip'', PInt skip), (''limit'', PInt limit)]
          in (case get_cached_response now cache_key w0 of
                Some cached \<Rightarrow> (Inr (CachedBody cached), w0)
              | None \<Rightarrow>
                  (case get_all_students w0 of
                     (sts, w1) \<Rightarrow>
                       let result = py_slice sts skip (skip + limit)
                       in (case set_cached_response now cache_key (StudentsBody result) 300 w1 of
                             Inl e \<Rightarrow> (Inl e, w1)
                           | Inr w2 \<Rightarrow> (Inr (StudentsBody result), w2)))))"


text \<open>
  \<^verbatim>\<open>
  updated = StudentDatabase(db).update_student(student_id, student_data)
  invalidate_cache("students")
  invalidate_cache("student", student_id=student_id)
  invalidate_cache("faculties")
  return updated
  \<close>
  The second call passes a keyword argument; an exception that leaves the route is
  the response (status 500), and what was done before it stays done.
\<close>

definition update_student ::
  "int \<Rightarrow> string option \<Rightarrow> int \<Rightarrow> student_update \<Rightarrow> world \<Rightarrow> (error + payload) \<times> world" where
  "update_student now cookie sid student_data w =
     (case get_current_user now cookie w of
        (Inl e, w0) \<Rightarrow> (Inl e, w0)
      | (Inr current_user, w0) \<Rightarrow>
          (case db_update_student sid student_data w0 of
             (Inl e, w1) \<Rightarrow> (Inl e, w1)
           | (Inr updated, w1) \<Rightarrow>
               let w2 = invalidate_cache now ''students'' w1
               in (case call_invalidate_cache now ''student'' [(''student_id'', PInt sid)] w2 of
                     Inl e \<Rightarrow> (Inl e, w2)
                   | Inr w3 \<Rightarrow>
                       (Inr (StudentBody updated), invalidate_cache now ''faculties'' w3))))"

definition delete_student ::
  "int \<Rightarrow> string option \<Rightarrow> int \<Rightarrow> world \<Rightarrow> (error + payload) \<times> world" where
  "delete_student now cookie sid w =
     (case get_current_user now cookie w of
        (Inl e, w0) \<Rightarrow> (Inl e, w0)
      | (Inr current_user, w0) \<Rightarrow>
          (case db_delete_student sid w0 of
             (Inl e, w1) \<Rightarrow> (Inl e, w1)
           | (Inr result, w1) \<Rightarrow>
               let w2 = invalidate_cache now ''students'' w1
               in (case call_invalidate_cache now ''student'' [(''student_id'', PInt sid)] w2 of
                     Inl e \<Rightarrow> (Inl e, w2)
                   | Inr w3 \<Rightarrow> (Inr result, invalidate_cache now ''faculties'' w3))))"

subsection \<open>Example states\<close>

text \<open>
  Three students, the user \<^verbatim>\<open>admin\<close> logged in with the session token \<open>tok\<close> until the
  instant 86400, the first page of the list and student 1 in the cache as JSON documents
  until the instant 300, and two files of two lines each.
\<close>

definition student_json :: "student \<Rightarrow> json" where
  "student_json s =
     JObj [(''id'', JInt (student_id s)), (''surname'', JStr (surname s)),
           (''name'', JStr (name s)), (''faculty'', JStr (faculty s)),
           (''course'', JStr (course s)), (''grade'', JInt (grade s))]"

definition example_student :: "int \<Rightarrow> student" where
  "example_student i =
     \<lparr>student_id = i, surname = ''Ivanov'', name = ''Ivan'', faculty = ''Physics'',
      course = ''Optics'', grade = 4\<rparr>"

definition admin :: user where
  "admin = \<lparr>user_id = 1, username = ''admin'', password = ''admin123_hashed'',
            session_token = Some ''tok'', token_expiry = Some 86400\<rparr>"

definition example_row :: "string \<Rightarrow> csv_row" where
  "example_row g =
     [(col_surname, Some ''Petrov''), (col_name, Some ''Petr''), (col_faculty, Some ''Physics''),
      (col_course, Some ''Optics''), (col_grade, Some g)]"

definition example_world :: world where
  "example_world =
     \<lparr>students = [example_student 1, example_student 2, example_student 3],
      users = [admin],
      redis = [(''cache:students:limit=100:skip=0'',
                  JList [student_json (example_student 1), student_json (example_student 2),
                         student_json (example_student 3)], 300),
               (''cache:student:student_id=1'', student_json (example_student 1), 300)],
      files = [(''good.csv'', [example_row ''5'', example_row '' 3 '']),
               (''bad.csv'', [example_row ''5'', example_row ''five''])],
      background_tasks = [],
      trace = []\<rparr>"

section \<open>Properties\<close>

subsection \<open>Cache keys\<close>

lemma foldl_append_parts:
  "foldl (\<lambda>key (k, v). key @ '':'' @ k @ ''='' @ py_str v) acc ps =
   acc @ concat (map (\<lambda>(k, v). '':'' @ k @ ''='' @ py_str v) ps)"
  by (induction ps arbitrary: acc) (auto simp: case_prod_beta)

lemma filter_eq_distinct: "distinct xs \<Longrightarrow> k \<in> set xs \<Longrightarrow> filter (\<lambda>x. k = x) xs = [k]"
  by (induction xs) (auto simp: filter_empty_conv)

lemma sort_key_fst_unique:
  assumes "distinct (map fst xs)" "distinct (map fst ys)" "set xs = set ys"
  shows "sort_key fst xs = sort_key fst (ys :: (string \<times> pyval) list)"
proof -
  have dx: "distinct xs" and dy: "distinct ys"
    using assms(1,2) by (simp_all add: distinct_map)
  have m: "mset xs = mset ys"
    using dx dy assms(3) by (simp add: set_eq_iff_mset_eq_distinct)
  have inj: "inj_on fst (set ys)"
    using assms(2) by (simp add: distinct_map)
  have "sort_key fst ys = sort_key fst xs"
  proof (rule properties_for_sort_key)
    show "mset (sort_key fst xs) = mset ys" using m by simp
  next
    fix k assume "k \<in> set (sort_key fst xs)"
    then have k: "k \<in> set ys" using assms(3) by simp
    have "filter (\<lambda>x. fst k = fst x) (sort_key fst xs) = filter (\<lambda>x. k = x) (sort_key fst xs)"
      using inj k assms(3) by (intro filter_cong) (auto dest: inj_onD)
    moreover have "filter (\<lambda>x. fst k = fst x) ys = filter (\<lambda>x. k = x) ys"
      using inj k by (intro filter_cong) (auto dest: inj_onD)
    moreover have "filter (\<lambda>x. k = x) (sort_key fst xs) = filter (\<lambda>x. k = x) ys"
    proof -
      have "distinct (sort_key fst xs)" using dx by simp
      moreover have "k \<in> set (sort_key fst xs)" using k assms(3) by simp
      ultimately have "filter (\<lambda>x. k = x) (sort_key fst xs) = [k]"
        by (simp add: filter_eq_distinct)
      moreover have "filter (\<lambda>x. k = x) ys = [k]"
        using dy k by (simp add: filter_eq_distinct)
      ultimately show ?thesis by simp
    qed
    ultimately show "filter (\<lambda>x. fst k = fst x) (sort_key fst xs) = filter (\<lambda>x. fst k = fst x) ys"
      by simp
  next
    show "sorted (map fst (sort_key fst xs))" by simp
  qed
  then show ?thesis by simp
qed

text \<open>
  C6. The key is a function of its arguments alone; it is \<open>cache:\<close>, the endpoint and one
  part \<open>:k=v\<close> for each parameter, the parameters taken in ascending order of their
  names; two dictionaries with the same key/value pairs, in whatever insertion order,
  give the same key, as \<open>{limit:10, skip:0}\<close> and \<open>{skip:0, limit:10}\<close> do for
  \<open>students\<close>.
\<close>

theorem get_cache_key_canonical:
  "get_cache_key endpoint kwargs = spec_key endpoint (sort_key fst kwargs)
   \<and> sorted (map fst (sort_key fst kwargs))
   \<and> mset (sort_key fst kwargs) = mset kwargs
   \<and> (distinct (map fst kwargs) \<and> distinct (map fst kwargs') \<and> set kwargs = set kwargs'
        \<longrightarrow> get_cache_key endpoint kwargs = get_cache_key endpoint kwargs')
   \<and> get_cache_key ''students'' [(''limit'', PInt 10), (''skip'', PInt 0)]
        = get_cache_key ''students'' [(''skip'', PInt 0), (''limit'', PInt 10)]"
proof -
  have a: "get_cache_key endpoint kwargs = spec_key endpoint (sort_key fst kwargs)"
    unfolding get_cache_key_def spec_key_def by (simp only: foldl_append_parts append_assoc)
  have b: "distinct (map fst kwargs) \<and> distinct (map fst kwargs') \<and> set kwargs = set kwargs'
        \<longrightarrow> get_cache_key endpoint kwargs = get_cache_key endpoint kwargs'"
    using sort_key_fst_unique [of kwargs kwargs'] by (auto simp: get_cache_key_def)
  have c: "get_cache_key ''students'' [(''limit'', PInt 10), (''skip'', PInt 0)]
        = get_cache_key ''students'' [(''skip'', PInt 0), (''limit'', PInt 10)]"
    using sort_key_fst_unique [of "[(''limit'', PInt 10), (''skip'', PInt 0)]"
                                  "[(''skip'', PInt 0), (''limit'', PInt 10)]"]
    by (auto simp: get_cache_key_def)
  show ?thesis using a b c by simp
qed

theorem get_cache_key_canonical_witness:
  "get_cache_key ''students'' [(''skip'', PInt 0), (''limit'', PInt 10)]
     = ''cache:students:limit=10:skip=0''
   \<and> get_cache_key ''students'' [(''limit'', PInt 10), (''skip'', PInt 0)]
     = ''cache:students:limit=10:skip=0''"
proof -
  let ?a = "[(''skip'', PInt 0), (''limit'', PInt 10)]"
  let ?b = "[(''limit'', PInt 10), (''skip'', PInt 0)]"
  note t = get_cache_key_canonical [where endpoint = "''students''" and kwargs = ?a and kwargs' = ?b]
  have s: "sort_key fst ?a = ?b"
    by code_simp
  have d10: "digits 10 = ''10''" by code_simp
  have d0: "digits 0 = ''0''" by code_simp
  have k: "spec_key ''students'' ?b = ''cache:students:limit=10:skip=0''"
    by (simp add: spec_key_def d10 d0)
  have "get_cache_key ''students'' ?a = spec_key ''students'' (sort_key fst ?a)"
    using t by (rule conjunct1)
  then have e: "get_cache_key ''students'' ?a = ''cache:students:limit=10:skip=0''"
    by (simp only: s k)
  have "distinct (map fst ?a) \<and> distinct (map fst ?b) \<and> set ?a = set ?b" by auto
  with t have "get_cache_key ''students'' ?a = get_cache_key ''students'' ?b" by blast
  then show ?thesis using e by simp
qed

subsection \<open>The cache\<close>


lemma map_of_filter_fst:
  "map_of (filter (\<lambda>e. P (fst e)) r) k = (if P k then map_of r k else None)"
  by (induction r) auto

lemma redis_get_delete:
  "redis_get t (redis_delete r ks) k = (if k \<in> set ks then None else redis_get t r k)"
  by (simp add: redis_get_def redis_delete_def map_of_filter_fst [where P = "\<lambda>x. x \<notin> set ks"])

lemma map_of_delete:
  "map_of (redis_delete r ks) k = (if k \<in> set ks then None else map_of r k)"
  by (simp add: redis_delete_def map_of_filter_fst [where P = "\<lambda>x. x \<notin> set ks"])

lemma redis_get_live_key: "redis_get now r k \<noteq> None \<Longrightarrow> k \<in> fst ` set r"
  by (auto simp: redis_get_def split: option.splits dest: map_of_SomeD intro: rev_image_eqI)

lemma set_redis_keys:
  "k \<in> set (redis_keys now r pat) \<longleftrightarrow> redis_get now r k \<noteq> None \<and> glob_match pat k"
  using redis_get_live_key [of now r k] by (auto simp: redis_keys_def)

lemma redis_get_later:
  "now \<le> t \<Longrightarrow> redis_get now r k = None \<Longrightarrow> redis_get t r k = None"
  by (auto simp: redis_get_def split: option.splits if_splits)

lemma redis_invalidate_cache:
  "redis (invalidate_cache now p w) =
     redis_delete (redis w) (redis_keys now (redis w) (''cache:'' @ p @ '':*''))"
proof (cases "redis_keys now (redis w) (''cache:'' @ p @ '':*'') = []")
  case True
  then show ?thesis by (simp add: invalidate_cache_def Let_def redis_delete_def)
next
  case False
  then show ?thesis by (simp add: invalidate_cache_def Let_def)
qed

lemma redis_get_invalidate_cache:
  assumes "now \<le> t"
  shows "redis_get t (redis (invalidate_cache now p w)) k =
           (if glob_match (''cache:'' @ p @ '':*'') k then None else redis_get t (redis w) k)"
  using redis_get_later [OF assms, of "redis w" k]
  by (auto simp only: redis_invalidate_cache redis_get_delete set_redis_keys split: if_splits)

lemma map_of_invalidate_cache:
  "\<not> glob_match (''cache:'' @ p @ '':*'') k \<Longrightarrow>
     map_of (redis (invalidate_cache now p w)) k = map_of (redis w) k"
  by (simp only: redis_invalidate_cache map_of_delete set_redis_keys) simp

lemma invalidate_cache_others:
  "students (invalidate_cache now p w) = students w"
  "users (invalidate_cache now p w) = users w"
  "files (invalidate_cache now p w) = files w"
  "background_tasks (invalidate_cache now p w) = background_tasks w"
  "trace (invalidate_cache now p w) = trace w @ [Invalidate p]"
  by (simp_all add: invalidate_cache_def Let_def)

lemma glob_match_star: "glob_match ''*'' s"
  by (induction s) auto

lemma glob_match_literal:
  "glob_free p \<Longrightarrow> glob_match (p @ ''*'') s = (take (length p) s = p)"
proof (induction p arbitrary: s)
  case Nil
  then show ?case by (simp add: glob_match_star)
next
  case (Cons c p)
  then show ?case by (cases s) (auto simp: glob_free_def)
qed

lemma glob_free_cache: "glob_free p \<Longrightarrow> glob_free (''cache:'' @ p @ '':'')"
  by (simp add: glob_free_def)

lemma glob_match_prefix:
  assumes "glob_free p"
  shows "glob_match (''cache:'' @ p @ '':*'') k =
           (take (length (''cache:'' @ p @ '':'')) k = ''cache:'' @ p @ '':'')"
  using glob_match_literal [OF glob_free_cache [OF assms], of k] by simp


text \<open>
  C9. \<open>invalidate_cache prefix\<close> removes the entries whose key matches the pattern
  \<open>cache:prefix:*\<close> (seen from the instant of the call on, none of them is found) and
  leaves every entry under another key as it was, value and expiry. For a prefix of
  plain characters the pattern matches the keys that start with \<open>cache:prefix:\<close>. No key
  \<open>cache:student:...\<close> matches the pattern of \<open>students\<close>, and no key
  \<open>cache:students:...\<close> matches the pattern of \<open>student\<close>.
\<close>

theorem invalidate_cache_frame:
  "(now \<le> t \<and> CHR ''['' \<notin> set prefix \<longrightarrow>
      redis_get t (redis (invalidate_cache now prefix w)) k =
        (if glob_match (''cache:'' @ prefix @ '':*'') k then None else redis_get t (redis w) k))
   \<and> (\<not> glob_match (''cache:'' @ prefix @ '':*'') k \<longrightarrow>
        map_of (redis (invalidate_cache now prefix w)) k = map_of (redis w) k)
   \<and> (glob_free prefix \<longrightarrow>
        glob_match (''cache:'' @ prefix @ '':*'') k =
          (take (length (''cache:'' @ prefix @ '':'')) k = ''cache:'' @ prefix @ '':''))
   \<and> \<not> glob_match ''cache:students:*'' (''cache:student:'' @ rest)
   \<and> \<not> glob_match ''cache:student:*'' (''cache:students:'' @ rest)"
proof -
  have a: "now \<le> t \<and> CHR ''['' \<notin> set prefix \<longrightarrow>
      redis_get t (redis (invalidate_cache now prefix w)) k =
        (if glob_match (''cache:'' @ prefix @ '':*'') k then None else redis_get t (redis w) k)"
    using redis_get_invalidate_cache [of now t prefix w k] by blast
  have b: "\<not> glob_match (''cache:'' @ prefix @ '':*'') k \<longrightarrow>
        map_of (redis (invalidate_cache now prefix w)) k = map_of (redis w) k"
    using map_of_invalidate_cache [of prefix k now w] by blast
  have c: "glob_free prefix \<longrightarrow>
        glob_match (''cache:'' @ prefix @ '':*'') k =
          (take (length (''cache:'' @ prefix @ '':'')) k = ''cache:'' @ prefix @ '':'')"
    using glob_match_prefix [of prefix k] by blast
  have d: "\<not> glob_match ''cache:students:*'' (''cache:student:'' @ rest)"
    by simp
  have e: "\<not> glob_match ''cache:student:*'' (''cache:students:'' @ rest)"
    by simp
  show ?thesis using a b c d e by blast
qed

theorem invalidate_cache_frame_witness:
  "redis_get 0 (redis (invalidate_cache 0 ''students'' example_world))
       ''cache:students:limit=100:skip=0'' = None
   \<and> redis_get 0 (redis (invalidate_cache 0 ''students'' example_world))
       ''cache:student:student_id=1'' = Some (student_json (example_student 1))
   \<and> map_of (redis (invalidate_cache 0 ''students'' example_world))
       ''cache:student:student_id=1'' = Some (student_json (example_student 1), 300)"
proof -
  note t1 = invalidate_cache_frame [where now = 0 and t = 0 and prefix = "''students''"
      and w = example_world and k = "''cache:students:limit=100:skip=0''" and rest = "[]"]
  note t2 = invalidate_cache_frame [where now = 0 and t = 0 and prefix = "''students''"
      and w = example_world and k = "''cache:student:student_id=1''" and rest = "[]"]
  have m1: "glob_match (''cache:'' @ ''students'' @ '':*'') ''cache:students:limit=100:skip=0''"
    by simp
  have m2: "\<not> glob_match (''cache:'' @ ''students'' @ '':*'') ''cache:student:student_id=1''"
    by simp
  have h: "(0::int) \<le> 0 \<and> CHR ''['' \<notin> set ''students''" by simp
  have g: "redis_get 0 (redis example_world) ''cache:student:student_id=1''
             = Some (student_json (example_student 1))"
    by (simp add: redis_get_def example_world_def)
  have g2: "map_of (redis example_world) ''cache:student:student_id=1''
             = Some (student_json (example_student 1), 300)"
    by (simp add: example_world_def)
  show ?thesis using t1 t2 m1 m2 h g g2 by simp
qed

subsection \<open>Sessions\<close>

lemma find_filter_hd:
  "find P xs = (case filter P xs of [] \<Rightarrow> None | x # _ \<Rightarrow> Some x)"
  by (induction xs) auto

lemma filter_update_first_clear:
  "(\<And>x. \<not> P (f x)) \<Longrightarrow> filter P (update_first P f xs) = tl (filter P xs)"
  by (induction xs) auto



lemma find_update_first:
  "find P xs \<noteq> None \<Longrightarrow> P c \<Longrightarrow> find P (update_first P (\<lambda>_. c) xs) = Some c"
  by (induction xs) auto


lemma db_get_current_user_unknown:
  "holders tok w = [] \<Longrightarrow> db_get_current_user now tok w = (None, w)"
  by (simp add: db_get_current_user_def holders_def find_filter_hd)

lemma db_get_current_user_first:
  "tok \<noteq> [] \<Longrightarrow> holders tok w = u # others \<Longrightarrow>
     db_get_current_user now tok w =
       (case token_expiry u of
          None \<Rightarrow> (Some u, w)
        | Some expiry \<Rightarrow>
            if expiry \<noteq> 0 \<and> now > expiry
            then (None, w\<lparr>users := update_first (\<lambda>u. session_token u = Some tok)
                                      (\<lambda>u. u\<lparr>session_token := None, token_expiry := None\<rparr>)
                                      (users w)\<rparr>)
            else (Some u, w))"
  by (simp add: db_get_current_user_def holders_def find_filter_hd)

text \<open>
  C7 (as amended). \<open>get_current_user\<close> of the database service returns no user for a
  token that no row holds. For a non-empty token held by one user whose expiry is set,
  is not 0 and lies before \<open>now\<close>, it returns no user and clears that row's token and
  expiry: no row holds the token afterwards, and a second call, at any time, returns no
  user again and changes nothing.
\<close>

theorem expired_token_purged:
  "(holders tok w = [] \<longrightarrow> db_get_current_user now tok w = (None, w))
   \<and> (tok \<noteq> [] \<and> holders tok w = [u] \<and> token_expiry u = Some expiry \<and> expiry \<noteq> 0
        \<and> now > expiry \<longrightarrow>
        fst (db_get_current_user now tok w) = None
        \<and> users (snd (db_get_current_user now tok w)) =
            update_first (\<lambda>u. session_token u = Some tok)
              (\<lambda>u. u\<lparr>session_token := None, token_expiry := None\<rparr>) (users w)
        \<and> holders tok (snd (db_get_current_user now tok w)) = []
        \<and> db_get_current_user now' tok (snd (db_get_current_user now tok w)) =
            (None, snd (db_get_current_user now tok w)))"
proof -
  have a: "holders tok w = [] \<longrightarrow> db_get_current_user now tok w = (None, w)"
    by (simp add: db_get_current_user_unknown)
  have b: "fst (db_get_current_user now tok w) = None
        \<and> users (snd (db_get_current_user now tok w)) =
            update_first (\<lambda>u. session_token u = Some tok)
              (\<lambda>u. u\<lparr>session_token := None, token_expiry := None\<rparr>) (users w)
        \<and> holders tok (snd (db_get_current_user now tok w)) = []
        \<and> db_get_current_user now' tok (snd (db_get_current_user now tok w)) =
            (None, snd (db_get_current_user now tok w))"
    if h: "tok \<noteq> []" "holders tok w = [u]" "token_expiry u = Some expiry" "expiry \<noteq> 0"
      "now > expiry"
  proof -
    let ?w' = "w\<lparr>users := update_first (\<lambda>u. session_token u = Some tok)
                   (\<lambda>u. u\<lparr>session_token := None, token_expiry := None\<rparr>) (users w)\<rparr>"
    have r: "db_get_current_user now tok w = (None, ?w')"
      using h by (simp add: db_get_current_user_first [where others = "[]"])
    have "holders tok ?w' = tl (holders tok w)"
      by (simp add: holders_def filter_update_first_clear)
    then have e: "holders tok ?w' = []" using h(2) by simp
    show ?thesis
      using db_get_current_user_unknown [OF e, of now'] e by (simp add: r)
  qed
  show ?thesis using a b by blast
qed

theorem expired_token_purged_witness:
  "db_get_current_user 5 ''none'' example_world = (None, example_world)
   \<and> fst (db_get_current_user 86401 ''tok'' example_world) = None
   \<and> users (snd (db_get_current_user 86401 ''tok'' example_world)) =
        [admin\<lparr>session_token := None, token_expiry := None\<rparr>]
   \<and> holders ''tok'' (snd (db_get_current_user 86401 ''tok'' example_world)) = []"
proof -
  have h0: "holders ''none'' example_world = []"
    by (simp add: holders_def example_world_def admin_def)
  have h1: "''tok'' \<noteq> [] \<and> holders ''tok'' example_world = [admin]
      \<and> token_expiry admin = Some 86400 \<and> (86400::int) \<noteq> 0 \<and> (86401::int) > 86400"
    by (simp add: holders_def example_world_def admin_def)
  have u: "update_first (\<lambda>u. session_token u = Some ''tok'')
              (\<lambda>u. u\<lparr>session_token := None, token_expiry := None\<rparr>) (users example_world)
           = [admin\<lparr>session_token := None, token_expiry := None\<rparr>]"
    by (simp add: example_world_def admin_def)
  note t0 = expired_token_purged [where tok = "''none''" and w = example_world and now = 5
      and u = admin and expiry = 0 and now' = 5]
  note t1 = expired_token_purged [where tok = "''tok''" and w = example_world and now = 86401
      and u = admin and expiry = 86400 and now' = 86401]
  from t0 h0 have a: "db_get_current_user 5 ''none'' example_world = (None, example_world)"
    by blast
  from t1 h1 have b: "fst (db_get_current_user 86401 ''tok'' example_world) = None
        \<and> users (snd (db_get_current_user 86401 ''tok'' example_world)) =
            update_first (\<lambda>u. session_token u = Some ''tok'')
              (\<lambda>u. u\<lparr>session_token := None, token_expiry := None\<rparr>) (users example_world)
        \<and> holders ''tok'' (snd (db_get_current_user 86401 ''tok'' example_world)) = []"
    by blast
  show ?thesis using a b by (simp only: u)
qed

text \<open>
  C7 as stated fails: a row with expiry 0 passes the test \<^verbatim>\<open>user.token_expiry and ...\<close>
  as if it had no expiry, so at the instant 5, later than 0, the user is returned.
\<close>

theorem zero_expiry_counterexample:
  "\<not> (\<forall>now tok w u expiry.
        holders tok w = [u] \<and> token_expiry u = Some expiry \<and> now > expiry
          \<longrightarrow> fst (db_get_current_user now tok w) = None)"
proof
  assume a: "\<forall>now tok w u expiry.
        holders tok w = [u] \<and> token_expiry u = Some expiry \<and> now > expiry
          \<longrightarrow> fst (db_get_current_user now tok w) = None"
  let ?u = "admin\<lparr>token_expiry := Some 0\<rparr>"
  let ?w = "example_world\<lparr>users := [?u]\<rparr>"
  have "holders ''tok'' ?w = [?u] \<and> token_expiry ?u = Some 0 \<and> (5::int) > 0"
    by (simp add: holders_def admin_def)
  with a have "fst (db_get_current_user 5 ''tok'' ?w) = None" by blast
  moreover have "fst (db_get_current_user 5 ''tok'' ?w) = Some ?u"
    by (simp add: db_get_current_user_def admin_def)
  ultimately show False by simp
qed

text \<open>
  C10. When the first row that holds the presented (non-empty) token has expiry NULL or 0,
  \<open>get_current_user\<close> returns that user and changes nothing, whatever the time.
\<close>

theorem token_without_expiry_never_expires:
  "tok \<noteq> [] \<Longrightarrow> holders tok w = u # others \<Longrightarrow>
   token_expiry u = None \<or> token_expiry u = Some 0 \<Longrightarrow>
   db_get_current_user now tok w = (Some u, w)"
  by (auto simp: db_get_current_user_first)

theorem token_without_expiry_never_expires_witness:
  "db_get_current_user 4102444800 ''tok'' (example_world\<lparr>users := [admin\<lparr>token_expiry := None\<rparr>]\<rparr>)
     = (Some (admin\<lparr>token_expiry := None\<rparr>),
        example_world\<lparr>users := [admin\<lparr>token_expiry := None\<rparr>]\<rparr>)
   \<and> db_get_current_user 4102444800 ''tok'' (example_world\<lparr>users := [admin\<lparr>token_expiry := Some 0\<rparr>]\<rparr>)
     = (Some (admin\<lparr>token_expiry := Some 0\<rparr>),
        example_world\<lparr>users := [admin\<lparr>token_expiry := Some 0\<rparr>]\<rparr>)"
proof -
  have n: "''tok'' \<noteq> []" by simp
  have h1: "holders ''tok'' (example_world\<lparr>users := [admin\<lparr>token_expiry := None\<rparr>]\<rparr>)
              = admin\<lparr>token_expiry := None\<rparr> # []"
    by (simp add: holders_def admin_def)
  have h2: "holders ''tok'' (example_world\<lparr>users := [admin\<lparr>token_expiry := Some 0\<rparr>]\<rparr>)
              = admin\<lparr>token_expiry := Some 0\<rparr> # []"
    by (simp add: holders_def admin_def)
  have e1: "token_expiry (admin\<lparr>token_expiry := None\<rparr>) = None
              \<or> token_expiry (admin\<lparr>token_expiry := None\<rparr>) = Some 0" by simp
  have e2: "token_expiry (admin\<lparr>token_expiry := Some 0\<rparr>) = None
              \<or> token_expiry (admin\<lparr>token_expiry := Some 0\<rparr>) = Some 0" by simp
  show ?thesis
    using token_without_expiry_never_expires [OF n h1 e1, of 4102444800]
          token_without_expiry_never_expires [OF n h2 e2, of 4102444800]
    by simp
qed





subsection \<open>Background tasks\<close>

lemma load_from_csv_others:
  assumes "load_from_csv file_path w = Inr w1"
  shows "trace w1 = trace w" "redis w1 = redis w" "users w1 = users w"
  using assms by (auto simp: load_from_csv_def split: option.splits sum.splits)

lemma delete_students_by_ids_others:
  "trace (delete_students_by_ids ids w) = trace w"
  "redis (delete_students_by_ids ids w) = redis w"
  "users (delete_students_by_ids ids w) = users w"
  by (simp_all add: delete_students_by_ids_def)

text \<open>
  C1 (as amended). When the import succeeds, \<open>background_load_csv\<close> calls
  \<open>invalidate_cache\<close> once for each of \<open>students\<close>, \<open>faculties\<close>, \<open>courses\<close>, in this
  order, and nothing else is invalidated; when the import raises, the task ends with the
  state as it was and no call of \<open>invalidate_cache\<close>. \<open>background_delete_students\<close>,
  whose deletion has no failing branch here, calls it once for \<open>students\<close> and once for
  \<open>faculties\<close>.
\<close>

theorem background_task_invalidation:
  "(load_from_csv file_path w = Inr w1 \<longrightarrow>
      trace (background_load_csv now file_path w) =
        trace w @ [Invalidate ''students'', Invalidate ''faculties'', Invalidate ''courses''])
   \<and> (load_from_csv file_path w = Inl e \<longrightarrow> background_load_csv now file_path w = w)
   \<and> trace (background_delete_students now student_ids w) =
        trace w @ [Invalidate ''students'', Invalidate ''faculties'']"
proof -
  have a: "trace (background_load_csv now file_path w) =
        trace w @ [Invalidate ''students'', Invalidate ''faculties'', Invalidate ''courses'']"
    if "load_from_csv file_path w = Inr w1"
    using that load_from_csv_others(1) [OF that]
    by (simp add: background_load_csv_def invalidate_cache_others)
  have b: "background_load_csv now file_path w = w" if "load_from_csv file_path w = Inl e"
    using that by (simp add: background_load_csv_def)
  have c: "trace (background_delete_students now student_ids w) =
        trace w @ [Invalidate ''students'', Invalidate ''faculties'']"
    by (simp add: background_delete_students_def invalidate_cache_others
        delete_students_by_ids_others)
  show ?thesis using a b c by blast
qed

lemma example_cells:
  "cell (example_row g) col_surname = Inr (Some ''Petrov'')"
  "cell (example_row g) col_name = Inr (Some ''Petr'')"
  "cell (example_row g) col_faculty = Inr (Some ''Physics'')"
  "cell (example_row g) col_course = Inr (Some ''Optics'')"
  "cell (example_row g) col_grade = Inr (Some g)"
  by (simp_all add: cell_def example_row_def col_surname_def col_name_def col_faculty_def
      col_course_def col_grade_def)

lemma example_ints:
  "py_int ''5'' = Some 5" "py_int '' 3 '' = Some 3" "py_int ''five'' = None"
  by (simp_all add: py_int_def strip_def is_space_def unsigned_def is_digit_def digit_val_def)

lemma example_rows:
  "row_student (example_row ''5'') = Inr (Some ''Petrov'', Some ''Petr'', Some ''Physics'', Some ''Optics'', 5)"
  "row_student (example_row '' 3 '') = Inr (Some ''Petrov'', Some ''Petr'', Some ''Physics'', Some ''Optics'', 3)"
  "row_student (example_row ''five'') = Inl ValueError"
  by (simp_all add: row_student_def example_cells example_ints)

lemma example_load_bad: "load_from_csv ''bad.csv'' example_world = Inl ValueError"
  by (simp add: load_from_csv_def example_world_def example_rows)

lemma example_load_good: "\<exists>w1. load_from_csv ''good.csv'' example_world = Inr w1"
  by (simp add: load_from_csv_def example_world_def example_rows)

theorem background_task_invalidation_witness:
  "trace (background_load_csv 0 ''good.csv'' example_world) =
      [Invalidate ''students'', Invalidate ''faculties'', Invalidate ''courses'']
   \<and> background_load_csv 0 ''bad.csv'' example_world = example_world
   \<and> trace (background_delete_students 0 [1, 2, 3] example_world) =
      [Invalidate ''students'', Invalidate ''faculties'']"
proof -
  obtain w1 where g: "load_from_csv ''good.csv'' example_world = Inr w1"
    using example_load_good by blast
  have t: "trace example_world = []" by (simp add: example_world_def)
  show ?thesis
    using background_task_invalidation [where file_path = "''good.csv''" and w = example_world
        and ?w1.0 = w1 and now = 0 and e = ValueError and student_ids = "[1, 2, 3]"]
      background_task_invalidation [where file_path = "''bad.csv''" and w = example_world
        and ?w1.0 = w1 and now = 0 and e = ValueError and student_ids = "[1, 2, 3]"]
      g example_load_bad
    by (simp add: t)
qed

text \<open>
  C1 as stated fails: the second line of \<^verbatim>\<open>bad.csv\<close> has the grade \<open>five\<close>, \<^verbatim>\<open>int\<close> raises
  \<^verbatim>\<open>ValueError\<close>, the \<^verbatim>\<open>except\<close> branch is taken, and no prefix is invalidated.
\<close>

theorem failed_import_counterexample:
  "load_from_csv ''bad.csv'' example_world = Inl ValueError
   \<and> count_list (trace (background_load_csv 0 ''bad.csv'' example_world)) (Invalidate ''students'') = 0
   \<and> count_list (trace (background_load_csv 0 ''bad.csv'' example_world)) (Invalidate ''faculties'') = 0
   \<and> count_list (trace (background_load_csv 0 ''bad.csv'' example_world)) (Invalidate ''courses'') = 0"
  by (simp add: background_load_csv_def example_load_bad) (simp add: example_world_def)

subsection \<open>Reading through the cache\<close>

lemma get_current_user_Inr:
  "fst (get_current_user now cookie w) = Inr u \<Longrightarrow> get_current_user now cookie w = (Inr u, w)"
  by (auto simp: get_current_user_def db_get_current_user_def
      split: option.splits if_splits prod.splits)

lemma example_auth:
  "users w = [admin] \<Longrightarrow> t \<le> 86400 \<Longrightarrow> get_current_user t (Some ''tok'') w = (Inr admin, w)"
  by (simp add: get_current_user_def db_get_current_user_def admin_def)

lemma list_key:
  "get_cache_key ''students'' [(''skip'', PInt skip), (''limit'', PInt limit)] =
     ''cache:students:limit='' @ py_str (PInt limit) @ '':skip='' @ py_str (PInt skip)"
  by (simp add: get_cache_key_def)


lemma redis_get_setex:
  "redis_get t (redis_setex now r k seconds v) k' =
     (if k' = k then (if t < now + seconds then Some v else None) else redis_get t r k')"
  by (simp add: redis_get_def redis_setex_def map_of_filter_fst [where P = "\<lambda>x. x \<noteq> k"])

lemma get_cached_response_later:
  "now \<le> t \<Longrightarrow> get_cached_response now k w = None \<Longrightarrow> get_cached_response t k w = None"
  by (auto simp: get_cached_response_def redis_get_def split: option.splits if_splits)

lemma get_cached_response_trace:
  "get_cached_response t k (w\<lparr>trace := tr\<rparr>) = get_cached_response t k w"
  by (simp add: get_cached_response_def)

lemma read_all_students_hit:
  assumes "fst (get_current_user now cookie w) = Inr u"
    and "get_cached_response now (get_cache_key ''students'' [(''skip'', PInt skip), (''limit'', PInt limit)]) w = Some c"
  shows "read_all_students now cookie skip limit w = (Inr (CachedBody c), w)"
  using assms(2) get_current_user_Inr [OF assms(1)]
  by (simp add: read_all_students_def Let_def)

lemma read_all_students_miss:
  assumes "fst (get_current_user now cookie w) = Inr u"
    and "get_cached_response now (get_cache_key ''students'' [(''skip'', PInt skip), (''limit'', PInt limit)]) w = None"
  shows "read_all_students now cookie skip limit w =
           (case set_cached_response now (get_cache_key ''students'' [(''skip'', PInt skip), (''limit'', PInt limit)])
                   (StudentsBody (py_slice (students w) skip (skip + limit))) 300
                   (w\<lparr>trace := trace w @ [StudentQuery]\<rparr>) of
              Inl e \<Rightarrow> (Inl e, w\<lparr>trace := trace w @ [StudentQuery]\<rparr>)
            | Inr w2 \<Rightarrow> (Inr (StudentsBody (py_slice (students w) skip (skip + limit))), w2))"
  using assms(2) get_current_user_Inr [OF assms(1)]
  by (simp add: read_all_students_def get_all_students_def Let_def)

lemma read_all_students_miss_trace:
  assumes "fst (get_current_user now cookie w) = Inr u"
    and "get_cached_response now (get_cache_key ''students'' [(''skip'', PInt skip), (''limit'', PInt limit)]) w = None"
  shows "trace (snd (read_all_students now cookie skip limit w)) = trace w @ [StudentQuery]"
  by (auto simp: read_all_students_miss [OF assms] set_cached_response_def split: sum.splits)

lemma read_all_students_nonempty:
  assumes "fst (get_current_user now cookie w) = Inr u"
    and "get_cached_response now (get_cache_key ''students'' [(''skip'', PInt skip), (''limit'', PInt limit)]) w = None"
    and "py_slice (students w) skip (skip + limit) \<noteq> []"
  shows "read_all_students now cookie skip limit w =
           (Inl TypeError, w\<lparr>trace := trace w @ [StudentQuery]\<rparr>)"
proof -
  obtain st sts where "py_slice (students w) skip (skip + limit) = st # sts"
    using assms(3) by (cases "py_slice (students w) skip (skip + limit)") auto
  then show ?thesis
    by (simp add: read_all_students_miss [OF assms(1,2)] set_cached_response_def)
qed

text \<open>
  What works: for an empty page \<^verbatim>\<open>json.dumps\<close> succeeds, the page is stored for 300 seconds,
  and within that time the second call is answered from the cache with no query.
\<close>

lemma empty_page_read_through:
  assumes auth1: "fst (get_current_user now1 cookie1 w) = Inr user1"
    and miss: "get_cached_response now1 (get_cache_key ''students'' [(''skip'', PInt skip), (''limit'', PInt limit)]) w = None"
    and page: "py_slice (students w) skip (skip + limit) = []"
    and auth2: "fst (get_current_user now2 cookie2
                  (snd (read_all_students now1 cookie1 skip limit w))) = Inr user2"
    and ttl: "now2 < now1 + 300"
  shows "fst (read_all_students now1 cookie1 skip limit w) = Inr (StudentsBody [])
       \<and> trace (snd (read_all_students now1 cookie1 skip limit w)) = trace w @ [StudentQuery]
       \<and> read_all_students now2 cookie2 skip limit (snd (read_all_students now1 cookie1 skip limit w)) =
           (Inr (CachedBody (JList [])), snd (read_all_students now1 cookie1 skip limit w))"
proof -
  let ?w1 = "w\<lparr>trace := trace w @ [StudentQuery],
               redis := redis_setex now1 (redis w) (get_cache_key ''students'' [(''skip'', PInt skip), (''limit'', PInt limit)]) 300 (JList [])\<rparr>"
  have r1: "read_all_students now1 cookie1 skip limit w = (Inr (StudentsBody []), ?w1)"
    by (simp add: read_all_students_miss [OF auth1 miss] page set_cached_response_def)
  have c2: "get_cached_response now2 (get_cache_key ''students'' [(''skip'', PInt skip), (''limit'', PInt limit)]) ?w1 = Some (JList [])"
    using ttl by (simp add: get_cached_response_def redis_get_setex)
  have a2: "fst (get_current_user now2 cookie2 ?w1) = Inr user2"
    using auth2 by (simp only: r1 snd_conv)
  have r2: "read_all_students now2 cookie2 skip limit ?w1 = (Inr (CachedBody (JList [])), ?w1)"
    by (rule read_all_students_hit [OF a2 c2])
  show ?thesis
    by (simp only: r1 fst_conv snd_conv r2) simp
qed

text \<open>
  C5 (what the code does). An authenticated \<^verbatim>\<open>GET /students/\<close> whose key is not in the
  cache and whose page has at least one student queries the table, and then
  \<^verbatim>\<open>set_cached_response\<close> raises \<^verbatim>\<open>TypeError\<close>, since \<^verbatim>\<open>json.dumps\<close> is given objects of the
  class \<^verbatim>\<open>Student\<close>: that error is the response and nothing is stored. A second
  authenticated call with the same \<open>skip\<close> and \<open>limit\<close>, at any later time, queries the
  table again and ends the same way. The claim asks for a populated cache and for a
  second answer equal to the first with no query of the table.
\<close>

theorem nonempty_page_never_cached:
  assumes auth1: "fst (get_current_user now1 cookie1 w) = Inr user1"
    and miss: "get_cached_response now1 (get_cache_key ''students'' [(''skip'', PInt skip), (''limit'', PInt limit)]) w = None"
    and page: "py_slice (students w) skip (skip + limit) \<noteq> []"
    and auth2: "fst (get_current_user now2 cookie2
                  (snd (read_all_students now1 cookie1 skip limit w))) = Inr user2"
    and later: "now1 \<le> now2"
  shows "read_all_students now1 cookie1 skip limit w =
           (Inl TypeError, w\<lparr>trace := trace w @ [StudentQuery]\<rparr>)
       \<and> read_all_students now2 cookie2 skip limit
           (snd (read_all_students now1 cookie1 skip limit w)) =
           (Inl TypeError, w\<lparr>trace := trace w @ [StudentQuery, StudentQuery]\<rparr>)"
proof -
  let ?w1 = "w\<lparr>trace := trace w @ [StudentQuery]\<rparr>"
  have r1: "read_all_students now1 cookie1 skip limit w = (Inl TypeError, ?w1)"
    by (rule read_all_students_nonempty [OF auth1 miss page])
  have a2: "fst (get_current_user now2 cookie2 ?w1) = Inr user2"
    using auth2 by (simp only: r1 snd_conv)
  have m2: "get_cached_response now2 (get_cache_key ''students'' [(''skip'', PInt skip), (''limit'', PInt limit)]) ?w1 = None"
    using get_cached_response_later [OF later miss] by (simp add: get_cached_response_trace)
  have p2: "py_slice (students ?w1) skip (skip + limit) \<noteq> []"
    using page by simp
  have r2: "read_all_students now2 cookie2 skip limit ?w1 =
              (Inl TypeError, ?w1\<lparr>trace := trace ?w1 @ [StudentQuery]\<rparr>)"
    by (rule read_all_students_nonempty [OF a2 m2 p2])
  show ?thesis
    by (simp only: r1 snd_conv r2) simp
qed

lemma digits_small: "digits 0 = ''0''" "digits 1 = ''1''" "digits 2 = ''2''"
  by code_simp+

lemma example_page_key:
  "get_cache_key ''students'' [(''skip'', PInt 0), (''limit'', PInt 2)] = ''cache:students:limit=2:skip=0''"
  by (simp add: list_key digits_small)

lemma example_page: "py_slice (students example_world) 0 2 = [example_student 1, example_student 2]"
  by (simp add: py_slice_def slice_bound_def example_world_def)

theorem nonempty_page_never_cached_witness:
  "read_all_students 0 (Some ''tok'') 0 2 example_world =
      (Inl TypeError, example_world\<lparr>trace := [StudentQuery]\<rparr>)
   \<and> read_all_students 1 (Some ''tok'') 0 2 (example_world\<lparr>trace := [StudentQuery]\<rparr>) =
      (Inl TypeError, example_world\<lparr>trace := [StudentQuery, StudentQuery]\<rparr>)"
proof -
  have a1: "fst (get_current_user 0 (Some ''tok'') example_world) = Inr admin"
    by (simp add: example_auth example_world_def)
  have m: "get_cached_response 0
      (get_cache_key ''students'' [(''skip'', PInt 0), (''limit'', PInt 2)]) example_world = None"
    by (simp add: example_page_key get_cached_response_def redis_get_def example_world_def)
  have p: "py_slice (students example_world) 0 (0 + 2) \<noteq> []"
    by (simp add: example_page)
  have t: "trace example_world = []" by (simp add: example_world_def)
  have r1: "read_all_students 0 (Some ''tok'') 0 2 example_world =
      (Inl TypeError, example_world\<lparr>trace := [StudentQuery]\<rparr>)"
    using read_all_students_nonempty [OF a1 m p] by (simp add: t)
  have u: "users (example_world\<lparr>trace := [StudentQuery]\<rparr>) = [admin]"
    by (simp add: example_world_def)
  have a2: "fst (get_current_user 1 (Some ''tok'')
              (snd (read_all_students 0 (Some ''tok'') 0 2 example_world))) = Inr admin"
    by (simp add: r1 example_auth [OF u])
  have l: "(0::int) \<le> 1" by simp
  from nonempty_page_never_cached [OF a1 m p a2 l]
  show ?thesis by (simp add: r1 t)
qed

subsection \<open>Update and delete of one student\<close>

lemma update_student_after_commit:
  assumes "fst (get_current_user now cookie w) = Inr u"
    and "fst (db_update_student sid student_data w) = Inr updated"
  shows "update_student now cookie sid student_data w =
           (Inl TypeError, invalidate_cache now ''students'' (snd (db_update_student sid student_data w)))"
  using assms(2) get_current_user_Inr [OF assms(1)]
  by (cases "db_update_student sid student_data w")
     (simp add: update_student_def call_invalidate_cache_def Let_def)

lemma delete_student_after_commit:
  assumes "fst (get_current_user now cookie w) = Inr u"
    and "fst (db_delete_student sid w) = Inr result"
  shows "delete_student now cookie sid w =
           (Inl TypeError, invalidate_cache now ''students'' (snd (db_delete_student sid w)))"
  using assms(2) get_current_user_Inr [OF assms(1)]
  by (cases "db_delete_student sid w")
     (simp add: delete_student_def call_invalidate_cache_def Let_def)

text \<open>
  C4 (what the code does). For an authenticated \<^verbatim>\<open>PUT\<close> or \<^verbatim>\<open>DELETE /students/{id}\<close> whose
  change of the table is committed, the route then invalidates \<open>students\<close>, and the call
  \<^verbatim>\<open>invalidate_cache("student", student_id=student_id)\<close> raises \<^verbatim>\<open>TypeError\<close>: that error
  is the response, and neither the entry of that student nor \<open>faculties\<close> is invalidated.
  The claim asks for the updated record as the response and for the three invalidations.
\<close>

theorem update_and_delete_raise:
  assumes "fst (get_current_user now cookie w) = Inr u"
  shows "(fst (db_update_student sid student_data w) = Inr updated \<longrightarrow>
            update_student now cookie sid student_data w =
              (Inl TypeError,
               invalidate_cache now ''students'' (snd (db_update_student sid student_data w))))
       \<and> (fst (db_delete_student sid w) = Inr result \<longrightarrow>
            delete_student now cookie sid w =
              (Inl TypeError, invalidate_cache now ''students'' (snd (db_delete_student sid w))))"
  using update_student_after_commit [OF assms] delete_student_after_commit [OF assms]
  by blast

lemma example_db_update:
  "db_update_student 1 (StudentUpdate Unset Unset Unset Unset (Given 5)) example_world =
     (Inr ((example_student 1)\<lparr>grade := 5\<rparr>),
      example_world\<lparr>trace := [StudentQuery],
                     students := [(example_student 1)\<lparr>grade := 5\<rparr>, example_student 2,
                                  example_student 3]\<rparr>)"
  by (simp add: db_update_student_def get_student_def apply_update_def example_world_def
      example_student_def Let_def)

theorem update_and_delete_raise_witness:
  "fst (update_student 0 (Some ''tok'') 1 (StudentUpdate Unset Unset Unset Unset (Given 5))
          example_world) = Inl TypeError
   \<and> students (snd (update_student 0 (Some ''tok'') 1
          (StudentUpdate Unset Unset Unset Unset (Given 5)) example_world)) =
       [(example_student 1)\<lparr>grade := 5\<rparr>, example_student 2, example_student 3]
   \<and> trace (snd (update_student 0 (Some ''tok'') 1
          (StudentUpdate Unset Unset Unset Unset (Given 5)) example_world)) =
       [StudentQuery, Invalidate ''students'']
   \<and> get_cached_response 0 ''cache:student:student_id=1''
        (snd (update_student 0 (Some ''tok'') 1
          (StudentUpdate Unset Unset Unset Unset (Given 5)) example_world)) =
       Some (student_json (example_student 1))"
proof -
  let ?sd = "StudentUpdate Unset Unset Unset Unset (Given 5)"
  let ?w1 = "example_world\<lparr>trace := [StudentQuery],
                     students := [(example_student 1)\<lparr>grade := 5\<rparr>, example_student 2,
                                  example_student 3]\<rparr>"
  have a: "fst (get_current_user 0 (Some ''tok'') example_world) = Inr admin"
    by (simp add: example_auth example_world_def)
  have r: "update_student 0 (Some ''tok'') 1 ?sd example_world =
             (Inl TypeError, invalidate_cache 0 ''students'' ?w1)"
    using update_and_delete_raise [OF a, where sid = 1 and student_data = ?sd
        and updated = "(example_student 1)\<lparr>grade := 5\<rparr>"]
    by (simp add: example_db_update)
  have m: "\<not> glob_match (''cache:'' @ ''students'' @ '':*'') ''cache:student:student_id=1''"
    by simp
  have g: "redis_get 0 (redis ?w1) ''cache:student:student_id=1'' = Some (student_json (example_student 1))"
    by (simp add: redis_get_def example_world_def)
  have c: "get_cached_response 0 ''cache:student:student_id=1'' (invalidate_cache 0 ''students'' ?w1)
             = Some (student_json (example_student 1))"
    using redis_get_invalidate_cache [of 0 0 "''students''" ?w1 "''cache:student:student_id=1''"] m g
    by (simp add: get_cached_response_def student_json_def)
  show ?thesis
    by (simp add: r invalidate_cache_others c)
qed

subsection \<open>Bulk delete and the entries of single students\<close>






subsection \<open>Mutations and the pages of the list\<close>

lemma list_key_matches:
  "glob_match (''cache:'' @ ''students'' @ '':*'')
     (get_cache_key ''students'' [(''skip'', PInt skip), (''limit'', PInt limit)])"
  by (simp add: list_key glob_match_star del: py_str.simps)

lemma list_key_absent:
  "now \<le> t \<Longrightarrow>
     get_cached_response t (get_cache_key ''students'' [(''skip'', PInt skip), (''limit'', PInt limit)])
       (invalidate_cache now ''students'' w) = None"
  using list_key_matches [of skip limit]
  by (simp add: get_cached_response_def redis_get_invalidate_cache del: glob_match.simps)

lemma absent_stays_absent:
  "now \<le> t \<Longrightarrow> get_cached_response t k w = None \<Longrightarrow>
     get_cached_response t k (invalidate_cache now p w) = None"
  by (simp add: get_cached_response_def redis_get_invalidate_cache)

lemma create_student_world:
  assumes "fst (get_current_user now cookie w) = Inr u"
  shows "snd (create_student now cookie sc w) =
           invalidate_cache now ''faculties''
             (invalidate_cache now ''students'' (snd (insert_student sc w)))"
  using get_current_user_Inr [OF assms]
  by (cases "insert_student sc w") (simp add: create_student_def)

lemma bulk_routes_keep_cache:
  "redis (snd (load_csv_from_file now cookie file_path w)) = redis w"
  "redis (snd (delete_students_bulk now cookie ids w)) = redis w"
  by (auto simp: load_csv_from_file_def delete_students_bulk_def get_current_user_def
      db_get_current_user_def split: option.splits if_splits prod.splits sum.splits)


text \<open>
  C3 (as amended). For an authenticated request at \<open>now\<close> and any later instant \<open>t\<close>: after
  \<^verbatim>\<open>POST /students/\<close>, and after a \<^verbatim>\<open>PUT\<close> or \<^verbatim>\<open>DELETE /students/{id}\<close> whose change of
  the table is committed, no page of \<^verbatim>\<open>GET /students/\<close> is found in the cache. The routes
  \<^verbatim>\<open>load-csv\<close> and \<^verbatim>\<open>bulk-delete\<close> answer with the cache as it was; the pages are gone
  once the background task has run, the import having succeeded. An authenticated
  \<^verbatim>\<open>GET /students/\<close> that does not find its page queries the table.
\<close>

theorem mutations_invalidate_student_lists:
  assumes auth: "fst (get_current_user now cookie w) = Inr u" and later: "now \<le> t"
  shows "get_cached_response t (get_cache_key ''students'' [(''skip'', PInt skip), (''limit'', PInt limit)]) (snd (create_student now cookie sc w)) = None
       \<and> (fst (db_update_student sid student_data w) = Inr updated \<longrightarrow>
            get_cached_response t (get_cache_key ''students'' [(''skip'', PInt skip), (''limit'', PInt limit)]) (snd (update_student now cookie sid student_data w)) = None)
       \<and> (fst (db_delete_student sid w) = Inr result \<longrightarrow>
            get_cached_response t (get_cache_key ''students'' [(''skip'', PInt skip), (''limit'', PInt limit)]) (snd (delete_student now cookie sid w)) = None)
       \<and> redis (snd (load_csv_from_file now cookie file_path w)) = redis w
       \<and> redis (snd (delete_students_bulk now cookie student_ids w)) = redis w
       \<and> (load_from_csv file_path w = Inr w1 \<longrightarrow>
            get_cached_response t (get_cache_key ''students'' [(''skip'', PInt skip), (''limit'', PInt limit)]) (background_load_csv now file_path w) = None)
       \<and> get_cached_response t (get_cache_key ''students'' [(''skip'', PInt skip), (''limit'', PInt limit)]) (background_delete_students now student_ids w) = None
       \<and> (fst (get_current_user t cookie' w') = Inr u' \<and> get_cached_response t (get_cache_key ''students'' [(''skip'', PInt skip), (''limit'', PInt limit)]) w' = None \<longrightarrow>
            trace (snd (read_all_students t cookie' skip limit w')) = trace w' @ [StudentQuery])"
proof -
  have a: "get_cached_response t (get_cache_key ''students'' [(''skip'', PInt skip), (''limit'', PInt limit)]) (snd (create_student now cookie sc w)) = None"
    by (simp only: create_student_world [OF auth] absent_stays_absent [OF later]
        list_key_absent [OF later])
  have b: "get_cached_response t (get_cache_key ''students'' [(''skip'', PInt skip), (''limit'', PInt limit)]) (snd (update_student now cookie sid student_data w)) = None"
    if "fst (db_update_student sid student_data w) = Inr updated"
    by (simp only: update_student_after_commit [OF auth that] snd_conv list_key_absent [OF later])
  have c: "get_cached_response t (get_cache_key ''students'' [(''skip'', PInt skip), (''limit'', PInt limit)]) (snd (delete_student now cookie sid w)) = None"
    if "fst (db_delete_student sid w) = Inr result"
    by (simp only: delete_student_after_commit [OF auth that] snd_conv list_key_absent [OF later])
  have d: "get_cached_response t (get_cache_key ''students'' [(''skip'', PInt skip), (''limit'', PInt limit)]) (background_load_csv now file_path w) = None"
    if "load_from_csv file_path w = Inr w1"
    using that
    by (simp add: background_load_csv_def absent_stays_absent [OF later]
        list_key_absent [OF later])
  have e: "get_cached_response t (get_cache_key ''students'' [(''skip'', PInt skip), (''limit'', PInt limit)]) (background_delete_students now student_ids w) = None"
    by (simp only: background_delete_students_def absent_stays_absent [OF later]
        list_key_absent [OF later])
  have f: "trace (snd (read_all_students t cookie' skip limit w')) = trace w' @ [StudentQuery]"
    if "fst (get_current_user t cookie' w') = Inr u'" "get_cached_response t (get_cache_key ''students'' [(''skip'', PInt skip), (''limit'', PInt limit)]) w' = None"
    by (rule read_all_students_miss_trace [OF that])
  show ?thesis
    using a b c d e f bulk_routes_keep_cache by blast
qed

lemma digits_100: "digits 100 = ''100''"
  by code_simp

lemma example_first_page_key:
  "get_cache_key ''students'' [(''skip'', PInt 0), (''limit'', PInt 100)] =
     ''cache:students:limit=100:skip=0''"
  by (simp add: list_key digits_small digits_100)

theorem mutations_invalidate_student_lists_witness:
  "get_cached_response 0 ''cache:students:limit=100:skip=0'' example_world =
      Some (JList [student_json (example_student 1), student_json (example_student 2), student_json (example_student 3)])
   \<and> get_cached_response 0 ''cache:students:limit=100:skip=0''
        (snd (create_student 0 (Some ''tok'')
               (StudentCreate ''Petrov'' ''Petr'' ''Physics'' ''Optics'' 5) example_world)) = None
   \<and> get_cached_response 0 ''cache:students:limit=100:skip=0''
        (background_delete_students 0 [1, 2, 3] example_world) = None
   \<and> redis (snd (delete_students_bulk 0 (Some ''tok'') [1, 2, 3] example_world)) =
      redis example_world"
proof -
  have a: "fst (get_current_user 0 (Some ''tok'') example_world) = Inr admin"
    by (simp add: example_auth example_world_def)
  have l: "(0::int) \<le> 0" by simp
  have g: "get_cached_response 0 ''cache:students:limit=100:skip=0'' example_world =
      Some (JList [student_json (example_student 1), student_json (example_student 2), student_json (example_student 3)])"
    by (simp add: get_cached_response_def redis_get_def example_world_def)
  from mutations_invalidate_student_lists [OF a l, where skip = 0 and limit = 100
      and sc = "StudentCreate ''Petrov'' ''Petr'' ''Physics'' ''Optics'' 5"
      and student_ids = "[1, 2, 3]"]
  show ?thesis using g by (simp only: example_first_page_key)
qed

text \<open>
  C3 as stated fails: \<^verbatim>\<open>POST /students/load-csv\<close> has answered, the first page is still in
  the cache, and the next \<^verbatim>\<open>GET /students/\<close> is served from it with no query of the table.
\<close>

theorem deferred_invalidation_counterexample:
  "fst (load_csv_from_file 0 (Some ''tok'') ''good.csv'' example_world) =
      Inr (MessageBody ''CSV import started in background'')
   \<and> get_cached_response 0
        (get_cache_key ''students'' [(''skip'', PInt 0), (''limit'', PInt 100)])
        (snd (load_csv_from_file 0 (Some ''tok'') ''good.csv'' example_world)) =
      Some (JList [student_json (example_student 1), student_json (example_student 2), student_json (example_student 3)])
   \<and> trace (snd (read_all_students 0 (Some ''tok'') 0 100
        (snd (load_csv_from_file 0 (Some ''tok'') ''good.csv'' example_world)))) = []"
proof -
  let ?w1 = "example_world\<lparr>background_tasks := [LoadCsvTask ''good.csv'']\<rparr>"
  have a: "get_current_user 0 (Some ''tok'') example_world = (Inr admin, example_world)"
    by (simp add: example_auth example_world_def)
  have r: "load_csv_from_file 0 (Some ''tok'') ''good.csv'' example_world =
             (Inr (MessageBody ''CSV import started in background''), ?w1)"
    by (simp add: load_csv_from_file_def a) (simp add: example_world_def)
  have u: "users ?w1 = [admin]" by (simp add: example_world_def)
  have a1: "fst (get_current_user 0 (Some ''tok'') ?w1) = Inr admin"
    by (simp add: example_auth [OF u])
  have g: "get_cached_response 0
        (get_cache_key ''students'' [(''skip'', PInt 0), (''limit'', PInt 100)]) ?w1 =
      Some (JList [student_json (example_student 1), student_json (example_student 2), student_json (example_student 3)])"
    by (simp add: example_first_page_key get_cached_response_def redis_get_def example_world_def)
  have t: "trace ?w1 = []" by (simp add: example_world_def)
  show ?thesis
    by (simp add: r g read_all_students_hit [OF a1 g] t)
qed

end
